theory Spec2Isabelle
  imports Main
begin

section \<open>The library service of main.py\<close>

text \<open>
  main.py is a FastAPI application over one SQLite table. Its handlers are thin: each one
  opens a connection with \<^verbatim>\<open>with get_db() as conn\<close>, runs one SQL statement, and commits
  when the statement gave a row. The model below keeps that shape:
  \<^item> the records \<open>BookCreate\<close> and \<open>Book\<close> are the two pydantic classes;
  \<^item> the database file is a value of type \<open>db\<close>: the rows of table \<open>books\<close> and the
    counter that \<open>AUTOINCREMENT\<close> keeps in \<open>sqlite_sequence\<close>;
  \<^item> every exception of the source is a constructor of \<open>error\<close>, and a handler returns
    \<open>error + result\<close> together with the database file it leaves behind;
  \<^item> a connection holds the file as it was committed last and the pending state of its
    open transaction; closing a connection drops what was not committed.
\<close>

subsection \<open>Records\<close>

text \<open>
  Text is a \<open>string\<close> of the logic: a list of characters with codes 0 to 255, read
  as one code point each. Every such text encodes to UTF-8, so binding it to an SQL
  parameter cannot fail. A Python string with an unpaired surrogate, on which the binding
  raises UnicodeEncodeError, has no counterpart here, and no statement below is about it.
\<close>

record BookCreate =
  title :: string
  author :: string
  publication_year :: int
  isbn :: string

record Book = BookCreate +
  book_id :: int

text \<open>
  \<open>HTTPException\<close> carries the status code and the detail of the source. The other
  constructors are exceptions that no handler catches (FastAPI answers 500), except
  \<open>RequestValidationError\<close>, which FastAPI raises itself before a handler runs (422).
  \<open>TypeError\<close> is what the \<^verbatim>\<open>with\<close> statement raises on an object that has no
  \<^verbatim>\<open>__enter__\<close>/\<^verbatim>\<open>__exit__\<close> (before Python 3.11 the same failure is an AttributeError).
\<close>

datatype error =
    HTTPException nat string
  | RequestValidationError
  | TypeError
  | OverflowError
  | IntegrityError
  | OperationalError

fun status_code :: "error \<Rightarrow> nat" where
  "status_code (HTTPException code detail) = code"
| "status_code RequestValidationError = 422"
| "status_code TypeError = 500"
| "status_code OverflowError = 500"
| "status_code IntegrityError = 500"
| "status_code OperationalError = 500"

subsection \<open>The table and its statements\<close>

text \<open>
  The schema of \<open>init_db\<close>:
  \<^verbatim>\<open>id INTEGER PRIMARY KEY AUTOINCREMENT, title TEXT NOT NULL, author TEXT NOT NULL,
  publication_year INTEGER NOT NULL, isbn TEXT NOT NULL UNIQUE\<close>.
  Rows are kept in insertion order. \<open>sqlite_sequence\<close> is the largest rowid the table has
  ever handed out (0 for a fresh table).
\<close>

record db =
  books :: "Book list"
  sqlite_sequence :: int

definition empty_db :: db where
  "empty_db = \<lparr>books = [], sqlite_sequence = 0\<rparr>"

text \<open>
  An SQLite INTEGER has 64 bits. Python's sqlite3 raises OverflowError when it binds an
  int outside that range to a \<^verbatim>\<open>?\<close> parameter, before the statement runs.
\<close>

definition sqlite_integer :: "int \<Rightarrow> bool" where
  "sqlite_integer n \<longleftrightarrow> - (2 ^ 63) \<le> n \<and> n < 2 ^ 63"

text \<open>
  With \<open>AUTOINCREMENT\<close> the new rowid is one more than the largest rowid that ever
  existed in the table: the larger of the counter and of the rowids present.
\<close>

definition max_rowid :: "db \<Rightarrow> int" where
  "max_rowid t = foldr max (map book_id (books t)) (sqlite_sequence t)"

text \<open>
  \<^verbatim>\<open>INSERT INTO books (title, author, publication_year, isbn) VALUES (?, ?, ?, ?) RETURNING *\<close>.
  The parameters are bound first (OverflowError), then SQLite picks the rowid (when the
  largest rowid is used up the statement fails with SQLITE_FULL, an OperationalError),
  then it checks the UNIQUE constraint on isbn (IntegrityError). A failed statement
  changes nothing. Title and author are text of the model, which always binds; they take
  no part in any check of the statement.
\<close>

definition insert_returning :: "BookCreate \<Rightarrow> db \<Rightarrow> error + (Book \<times> db)" where
  "insert_returning b t =
     (if \<not> sqlite_integer (publication_year b) then Inl OverflowError
      else if 2 ^ 63 - 1 \<le> max_rowid t then Inl OperationalError
      else if isbn b \<in> set (map isbn (books t)) then Inl IntegrityError
      else
        let new_book = \<lparr>title = title b, author = author b,
                        publication_year = publication_year b, isbn = isbn b,
                        book_id = max_rowid t + 1\<rparr>
        in Inr (new_book, \<lparr>books = books t @ [new_book], sqlite_sequence = max_rowid t + 1\<rparr>))"

text \<open>
  \<^verbatim>\<open>UPDATE books SET title = ?, author = ?, publication_year = ?, isbn = ? WHERE id = ? RETURNING *\<close>.
  No row with that id: no row comes back and nothing is checked. Otherwise the UNIQUE
  constraint compares the new isbn with the rows of every other id. As in the INSERT,
  title and author are text of the model, which always binds.
\<close>

definition update_returning :: "BookCreate \<Rightarrow> int \<Rightarrow> db \<Rightarrow> error + (Book option \<times> db)" where
  "update_returning b i t =
     (if \<not> sqlite_integer (publication_year b) \<or> \<not> sqlite_integer i then Inl OverflowError
      else if i \<notin> set (map book_id (books t)) then Inr (None, t)
      else if isbn b \<in> set (map isbn (filter (\<lambda>r. book_id r \<noteq> i) (books t)))
        then Inl IntegrityError
      else
        let updated_book = \<lparr>title = title b, author = author b,
                            publication_year = publication_year b, isbn = isbn b,
                            book_id = i\<rparr>
        in Inr (Some updated_book,
                t\<lparr>books := map (\<lambda>r. if book_id r = i then updated_book else r) (books t)\<rparr>))"

text \<open>\<^verbatim>\<open>DELETE FROM books WHERE id = ? RETURNING id\<close>. The counter is not reset.\<close>

definition delete_returning :: "int \<Rightarrow> db \<Rightarrow> error + (int option \<times> db)" where
  "delete_returning i t =
     (if \<not> sqlite_integer i then Inl OverflowError
      else if i \<notin> set (map book_id (books t)) then Inr (None, t)
      else Inr (Some i, t\<lparr>books := filter (\<lambda>r. book_id r \<noteq> i) (books t)\<rparr>))"

text \<open>\<^verbatim>\<open>SELECT * FROM books WHERE id = ?\<close> followed by \<^verbatim>\<open>fetchone()\<close>.\<close>

definition select_where_id :: "int \<Rightarrow> db \<Rightarrow> error + Book option" where
  "select_where_id i t =
     (if \<not> sqlite_integer i then Inl OverflowError
      else Inr (find (\<lambda>r. book_id r = i) (books t)))"

subsection \<open>Connections and the with statement\<close>

record connection =
  committed :: db
  pending :: db

definition connect :: "db \<Rightarrow> connection" where
  "connect file = \<lparr>committed = file, pending = file\<rparr>"

definition commit :: "connection \<Rightarrow> connection" where
  "commit conn = conn\<lparr>committed := pending conn\<rparr>"

definition close :: "connection \<Rightarrow> db" where
  "close conn = committed conn"

text \<open>
  \<open>get_db\<close> (line 20) is a plain generator function: it contains \<^verbatim>\<open>yield\<close> and carries
  no decorator, so calling it returns a generator object. \<open>contextmanager\<close> is imported
  from contextlib on line 5 and applied nowhere; applied to a generator function it gives
  a function whose result does support \<^verbatim>\<open>with\<close>. Both kinds of object keep the
  connection that the body of \<open>get_db\<close> opens and yields.
\<close>

datatype pyobj = Generator connection | GeneratorContextManager connection

definition get_db :: "db \<Rightarrow> pyobj" where
  "get_db file = Generator (connect file)"

definition contextmanager :: "(db \<Rightarrow> pyobj) \<Rightarrow> db \<Rightarrow> pyobj" where
  "contextmanager f file =
     (case f file of Generator conn \<Rightarrow> GeneratorContextManager conn | obj \<Rightarrow> obj)"

text \<open>
  \<^verbatim>\<open>with obj as conn: block\<close>. A generator object has no \<^verbatim>\<open>__enter__\<close>: the statement
  raises TypeError, the block does not run and the body of the generator never starts,
  so the file is left as it is. A context manager made from \<open>get_db\<close> runs the block on
  the yielded connection and then, whether the block returned or raised, the
  \<^verbatim>\<open>finally: conn.close()\<close> of \<open>get_db\<close>.
\<close>

definition with_as ::
  "pyobj \<Rightarrow> db \<Rightarrow> (connection \<Rightarrow> (error + 'a) \<times> connection) \<Rightarrow> (error + 'a) \<times> db" where
  "with_as obj file block =
     (case obj of
        Generator conn \<Rightarrow> (Inl TypeError, file)
      | GeneratorContextManager conn \<Rightarrow>
          (case block conn of (res, conn') \<Rightarrow> (res, close conn')))"

subsection \<open>The handlers\<close>

text \<open>
  A handler looks the name \<open>get_db\<close> up among the module's globals when it runs. The
  model passes that binding as the first argument \<open>getdb\<close>; the program as it is written
  is the instance at \<open>get_db\<close>.

  \<open>init_db\<close> (lines 29 to 40, called on line 42 when the module is imported) runs
  \<^verbatim>\<open>CREATE TABLE IF NOT EXISTS\<close> and commits. A file without the table is the empty
  table here, so the statement changes nothing.
\<close>

definition init_db :: "(db \<Rightarrow> pyobj) \<Rightarrow> db \<Rightarrow> (error + unit) \<times> db" where
  "init_db getdb file = with_as (getdb file) file (\<lambda>conn. (Inr (), commit conn))"

text \<open>\<open>get_books\<close>, lines 45 to 50: \<^verbatim>\<open>SELECT * FROM books\<close> and \<^verbatim>\<open>fetchall()\<close>.\<close>

definition get_books :: "(db \<Rightarrow> pyobj) \<Rightarrow> db \<Rightarrow> (error + Book list) \<times> db" where
  "get_books getdb file = with_as (getdb file) file (\<lambda>conn. (Inr (books (pending conn)), conn))"

text \<open>
  \<open>get_book\<close>, lines 52 to 59: no row raises \<^verbatim>\<open>HTTPException(status_code=404)\<close>.
\<close>

definition get_book :: "(db \<Rightarrow> pyobj) \<Rightarrow> int \<Rightarrow> db \<Rightarrow> (error + Book) \<times> db" where
  "get_book getdb i file =
     with_as (getdb file) file (\<lambda>conn.
       case select_where_id i (pending conn) of
         Inl e \<Rightarrow> (Inl e, conn)
       | Inr None \<Rightarrow> (Inl (HTTPException 404 ''Book not found''), conn)
       | Inr (Some book) \<Rightarrow> (Inr book, conn))"

text \<open>
  \<open>create_book\<close>, lines 61 to 77: the INSERT, \<^verbatim>\<open>fetchone()\<close>, \<^verbatim>\<open>conn.commit()\<close>. The
  \<^verbatim>\<open>try\<close> is around the whole \<^verbatim>\<open>with\<close> statement and its \<^verbatim>\<open>except\<close> catches
  \<^verbatim>\<open>sqlite3.IntegrityError\<close> only, which it turns into status 400.
\<close>

definition create_book :: "(db \<Rightarrow> pyobj) \<Rightarrow> BookCreate \<Rightarrow> db \<Rightarrow> (error + Book) \<times> db" where
  "create_book getdb book file =
     (let r = with_as (getdb file) file (\<lambda>conn.
                case insert_returning book (pending conn) of
                  Inl e \<Rightarrow> (Inl e, conn)
                | Inr (new_book, t) \<Rightarrow> (Inr new_book, commit (conn\<lparr>pending := t\<rparr>)))
      in if fst r = Inl IntegrityError
         then (Inl (HTTPException 400 ''ISBN already exists''), snd r)
         else r)"

text \<open>
  \<open>update_book\<close>, lines 79 to 95: the UPDATE and \<^verbatim>\<open>fetchone()\<close>; no row raises 404
  before the commit. There is no \<^verbatim>\<open>try\<close>: an exception of the statement leaves the
  handler as it is.
\<close>

definition update_book :: "(db \<Rightarrow> pyobj) \<Rightarrow> int \<Rightarrow> BookCreate \<Rightarrow> db \<Rightarrow> (error + Book) \<times> db" where
  "update_book getdb i book file =
     with_as (getdb file) file (\<lambda>conn.
       case update_returning book i (pending conn) of
         Inl e \<Rightarrow> (Inl e, conn)
       | Inr (None, t) \<Rightarrow> (Inl (HTTPException 404 ''Book not found''), conn\<lparr>pending := t\<rparr>)
       | Inr (Some updated_book, t) \<Rightarrow> (Inr updated_book, commit (conn\<lparr>pending := t\<rparr>)))"

text \<open>
  \<open>delete_book\<close>, lines 97 to 104: the DELETE and \<^verbatim>\<open>fetchone()\<close>; no row raises 404
  before the commit, a row commits and returns the message.
\<close>

definition delete_book :: "(db \<Rightarrow> pyobj) \<Rightarrow> int \<Rightarrow> db \<Rightarrow> (error + string) \<times> db" where
  "delete_book getdb i file =
     with_as (getdb file) file (\<lambda>conn.
       case delete_returning i (pending conn) of
         Inl e \<Rightarrow> (Inl e, conn)
       | Inr (None, t) \<Rightarrow> (Inl (HTTPException 404 ''Book not found''), conn\<lparr>pending := t\<rparr>)
       | Inr (Some j, t) \<Rightarrow> (Inr ''Book deleted successfully'', commit (conn\<lparr>pending := t\<rparr>)))"

subsection \<open>The request boundary\<close>

text \<open>
  FastAPI decodes the body of a POST or PUT request with \<^verbatim>\<open>json.loads\<close> and validates the
  decoded value against \<open>BookCreate\<close> before it calls the handler. The handler does not run
  when either step fails:
  \<^item> a body that is not JSON makes the decoder raise JSONDecodeError, which FastAPI
    answers as a validation error (422);
  \<^item> any other exception of the decoder is answered with
    \<^verbatim>\<open>HTTPException(status_code=400, detail="There was an error parsing the body")\<close>.
    Python (3.11 and later) raises ValueError on an integer literal of more than 4300
    digits and RecursionError on a body nested deeper than the interpreter allows;
  \<^item> a decoded value that \<open>BookCreate\<close> refuses is a validation error (422).

  \<open>json\<close> is a decoded value. JSON numbers with a fraction or an exponent are left out,
  and a JSON string is text of the model (characters with codes 0 to 255).
\<close>

datatype json =
    JNull
  | JBool bool
  | JInt int
  | JStr string
  | JArr "json list"
  | JObj "(string \<times> json) list"

text \<open>
  The body as the decoder leaves it: \<open>NotJSON\<close> for JSONDecodeError, \<open>Undecodable\<close> for
  another exception, \<open>Decoded\<close> with the value otherwise.
\<close>

datatype body = NotJSON | Undecodable | Decoded json

text \<open>An integer literal that the decoder converts has at most 4300 digits.\<close>

definition int_literal_ok :: "int \<Rightarrow> bool" where
  "int_literal_ok n \<longleftrightarrow> \<bar>n\<bar> < 10 ^ 4300"

fun loads_ok :: "json \<Rightarrow> bool" where
  "loads_ok JNull = True"
| "loads_ok (JBool b) = True"
| "loads_ok (JInt n) = int_literal_ok n"
| "loads_ok (JStr s) = True"
| "loads_ok (JArr xs) = list_all loads_ok xs"
| "loads_ok (JObj kvs) = list_all (\<lambda>kv. loads_ok (snd kv)) kvs"

text \<open>
  pydantic (version 2, which validates in lax mode unless told otherwise):
  \<^item> \<^verbatim>\<open>title: str\<close>, \<^verbatim>\<open>author: str\<close>, \<^verbatim>\<open>isbn: str\<close> take a JSON string as it is, the
    empty one too, and refuse every other value;
  \<^item> \<^verbatim>\<open>publication_year: int\<close> takes a JSON integer as it is, converts a boolean to 1
    or 0, converts a string of 1 to 4300 decimal digits to the integer it spells, and
    refuses null, arrays, objects, a string without any digit and a string with a
    character that no integer is written with.
  What it does with the remaining strings (digits together with signs, underscores, dots
  or white space, or more than 4300 digits) is the parameter \<open>mixed\<close>; \<open>no_mixed\<close>
  refuses them all.
\<close>

definition no_mixed :: "string \<Rightarrow> int option" where
  "no_mixed s = None"

definition digit :: "char \<Rightarrow> bool" where
  "digit c \<longleftrightarrow> c \<in> set ''0123456789''"

text \<open>
  The characters that a string accepted as an integer can hold: digits, signs, the
  underscore, the dot and white space (Python's and the validator's, below code 256).
\<close>

definition numeric_char :: "char \<Rightarrow> bool" where
  "numeric_char c \<longleftrightarrow>
     digit c \<or> c \<in> set ''+-_.'' \<or>
     (of_char c :: nat) \<in> set [9, 10, 11, 12, 13, 28, 29, 30, 31, 32, 133, 160]"

definition digits :: "string \<Rightarrow> bool" where
  "digits s \<longleftrightarrow> s \<noteq> [] \<and> length s \<le> 4300 \<and> list_all digit s"

definition int_of_digits :: "string \<Rightarrow> int" where
  "int_of_digits s = foldl (\<lambda>n c. 10 * n + (int (of_char c) - 48)) 0 s"

definition validate_str :: "json \<Rightarrow> string option" where
  "validate_str v =
     (case v of
        JStr s \<Rightarrow> Some s
      | JNull \<Rightarrow> None
      | JBool b \<Rightarrow> None
      | JInt n \<Rightarrow> None
      | JArr xs \<Rightarrow> None
      | JObj kvs \<Rightarrow> None)"

definition validate_int :: "(string \<Rightarrow> int option) \<Rightarrow> json \<Rightarrow> int option" where
  "validate_int mixed v =
     (case v of
        JInt n \<Rightarrow> Some n
      | JBool b \<Rightarrow> Some (if b then 1 else 0)
      | JStr s \<Rightarrow>
          if digits s then Some (int_of_digits s)
          else if list_ex digit s \<and> list_all numeric_char s then mixed s
          else None
      | JNull \<Rightarrow> None
      | JArr xs \<Rightarrow> None
      | JObj kvs \<Rightarrow> None)"

text \<open>A field that occurs twice in the JSON text has its last value; other fields are ignored.\<close>

definition get_field :: "(string \<times> json) list \<Rightarrow> string \<Rightarrow> (json \<Rightarrow> 'a option) \<Rightarrow> 'a option" where
  "get_field kvs name validator =
     (case map_of (rev kvs) name of None \<Rightarrow> None | Some v \<Rightarrow> validator v)"

definition validate_BookCreate :: "(string \<Rightarrow> int option) \<Rightarrow> json \<Rightarrow> error + BookCreate" where
  "validate_BookCreate mixed v =
     (case v of
        JObj kvs \<Rightarrow>
          (case get_field kvs ''title'' validate_str of
             None \<Rightarrow> Inl RequestValidationError
           | Some t \<Rightarrow>
          (case get_field kvs ''author'' validate_str of
             None \<Rightarrow> Inl RequestValidationError
           | Some a \<Rightarrow>
          (case get_field kvs ''publication_year'' (validate_int mixed) of
             None \<Rightarrow> Inl RequestValidationError
           | Some y \<Rightarrow>
          (case get_field kvs ''isbn'' validate_str of
             None \<Rightarrow> Inl RequestValidationError
           | Some s \<Rightarrow>
               Inr \<lparr>title = t, author = a, publication_year = y, isbn = s\<rparr>))))
      | _ \<Rightarrow> Inl RequestValidationError)"

text \<open>Decoding and validation together: the book that reaches the handler, or the error.\<close>

definition request_body :: "(string \<Rightarrow> int option) \<Rightarrow> body \<Rightarrow> error + BookCreate" where
  "request_body mixed b =
     (case b of
        NotJSON \<Rightarrow> Inl RequestValidationError
      | Undecodable \<Rightarrow> Inl (HTTPException 400 ''There was an error parsing the body'')
      | Decoded v \<Rightarrow>
          if \<not> loads_ok v
          then Inl (HTTPException 400 ''There was an error parsing the body'')
          else validate_BookCreate mixed v)"

text \<open>\<^verbatim>\<open>POST /items\<close> and \<^verbatim>\<open>PUT /items/{id}\<close> as FastAPI serves them.\<close>

definition post_items ::
  "(db \<Rightarrow> pyobj) \<Rightarrow> (string \<Rightarrow> int option) \<Rightarrow> body \<Rightarrow> db \<Rightarrow> (error + Book) \<times> db" where
  "post_items getdb mixed b file =
     (case request_body mixed b of
        Inl e \<Rightarrow> (Inl e, file)
      | Inr book \<Rightarrow> create_book getdb book file)"

definition put_items ::
  "(db \<Rightarrow> pyobj) \<Rightarrow> (string \<Rightarrow> int option) \<Rightarrow> int \<Rightarrow> body \<Rightarrow> db \<Rightarrow> (error + Book) \<times> db" where
  "put_items getdb mixed i b file =
     (case request_body mixed b of
        Inl e \<Rightarrow> (Inl e, file)
      | Inr book \<Rightarrow> update_book getdb i book file)"

text \<open>
  The values that a text field and the year field refuse whatever \<open>mixed\<close> is; the
  argument is the value of the field, \<open>None\<close> when the field is missing.
\<close>

fun wrong_str :: "json option \<Rightarrow> bool" where
  "wrong_str (Some (JStr s)) = False"
| "wrong_str v = True"

fun wrong_int :: "json option \<Rightarrow> bool" where
  "wrong_int (Some (JInt n)) = False"
| "wrong_int (Some (JBool b)) = False"
| "wrong_int (Some (JStr s)) = (\<not> (list_ex digit s \<and> list_all numeric_char s))"
| "wrong_int v = True"

text \<open>
  A decoded value that is not an object, or an object with a missing or mistyped field.
\<close>

definition wrong_fields :: "json \<Rightarrow> bool" where
  "wrong_fields v =
     (case v of
        JObj kvs \<Rightarrow>
          wrong_str (map_of (rev kvs) ''title'')
          \<or> wrong_str (map_of (rev kvs) ''author'')
          \<or> wrong_int (map_of (rev kvs) ''publication_year'')
          \<or> wrong_str (map_of (rev kvs) ''isbn'')
      | _ \<Rightarrow> True)"

text \<open>
  A body that is not JSON, or is decoded to such a value; a body on which the decoder
  raises another exception is not among them.
\<close>

definition refused :: "body \<Rightarrow> bool" where
  "refused b =
     (case b of
        NotJSON \<Rightarrow> True
      | Undecodable \<Rightarrow> False
      | Decoded v \<Rightarrow> loads_ok v \<and> wrong_fields v)"

text \<open>A body that the decoder fails on with an exception other than JSONDecodeError.\<close>

definition undecodable :: "body \<Rightarrow> bool" where
  "undecodable b =
     (case b of NotJSON \<Rightarrow> False | Undecodable \<Rightarrow> True | Decoded v \<Rightarrow> \<not> loads_ok v)"

subsection \<open>Sequences of requests\<close>

text \<open>
  Requests are served one after another on the same file. \<open>created_ids\<close> collects, in
  order, the ids that the successful creates of a sequence returned.
\<close>

datatype request =
    GET_items
  | GET_item int
  | POST_item BookCreate
  | PUT_item int BookCreate
  | DELETE_item int

datatype response = Books "Book list" | OneBook Book | Message string

fun handle :: "(db \<Rightarrow> pyobj) \<Rightarrow> request \<Rightarrow> db \<Rightarrow> (error + response) \<times> db" where
  "handle getdb GET_items file = apfst (map_sum id Books) (get_books getdb file)"
| "handle getdb (GET_item i) file = apfst (map_sum id OneBook) (get_book getdb i file)"
| "handle getdb (POST_item book) file = apfst (map_sum id OneBook) (create_book getdb book file)"
| "handle getdb (PUT_item i book) file = apfst (map_sum id OneBook) (update_book getdb i book file)"
| "handle getdb (DELETE_item i) file = apfst (map_sum id Message) (delete_book getdb i file)"

fun created_ids :: "(db \<Rightarrow> pyobj) \<Rightarrow> request list \<Rightarrow> db \<Rightarrow> int list" where
  "created_ids getdb [] file = []"
| "created_ids getdb (r # rs) file =
     (case (r, handle getdb r file) of
        (POST_item book, Inr (OneBook b), file') \<Rightarrow> book_id b # created_ids getdb rs file'
      | (_, _, file') \<Rightarrow> created_ids getdb rs file')"

subsection \<open>The constraints of the table\<close>

definition constraints :: "db \<Rightarrow> bool" where
  "constraints t \<longleftrightarrow> distinct (map book_id (books t)) \<and> distinct (map isbn (books t))"

subsection \<open>Example data\<close>

definition dune :: BookCreate where
  "dune = \<lparr>title = ''Dune'', author = ''Herbert'', publication_year = 1965, isbn = ''123''\<rparr>"

definition emma :: BookCreate where
  "emma = \<lparr>title = ''Emma'', author = ''Austen'', publication_year = 1815, isbn = ''456''\<rparr>"

definition ulysses :: BookCreate where
  "ulysses = \<lparr>title = ''Ulysses'', author = ''Joyce'', publication_year = 1922, isbn = ''789''\<rparr>"


definition dune_row :: Book where
  "dune_row = \<lparr>title = ''Dune'', author = ''Herbert'', publication_year = 1965, isbn = ''123'',
                book_id = 1\<rparr>"

definition emma_row :: Book where
  "emma_row = \<lparr>title = ''Emma'', author = ''Austen'', publication_year = 1815, isbn = ''456'',
                book_id = 2\<rparr>"

definition emma_first :: Book where
  "emma_first = \<lparr>title = ''Emma'', author = ''Austen'', publication_year = 1815, isbn = ''456'',
                  book_id = 1\<rparr>"


definition one_book :: db where
  "one_book = \<lparr>books = [dune_row], sqlite_sequence = 1\<rparr>"

definition two_books :: db where
  "two_books = \<lparr>books = [dune_row, emma_row], sqlite_sequence = 2\<rparr>"



definition year_as_text :: json where
  "year_as_text = JObj [(''title'', JStr ''Dune''), (''author'', JStr ''Herbert''),
                        (''publication_year'', JStr ''1965''), (''isbn'', JStr ''123'')]"

definition year_true :: json where
  "year_true = JObj [(''title'', JStr ''Dune''), (''author'', JStr ''Herbert''),
                     (''publication_year'', JBool True), (''isbn'', JStr ''123'')]"

definition huge :: int where
  "huge = 10 ^ 4300"

definition huge_year :: json where
  "huge_year = JObj [(''title'', JStr ''Dune''), (''author'', JStr ''Herbert''),
                     (''publication_year'', JInt huge), (''isbn'', JStr ''123'')]"

definition no_author :: json where
  "no_author = JObj [(''title'', JStr ''Dune''),
                     (''publication_year'', JInt 1965), (''isbn'', JStr ''123'')]"

definition year_abc :: json where
  "year_abc = JObj [(''title'', JStr ''Dune''), (''author'', JStr ''Herbert''),
                    (''publication_year'', JStr ''abc''), (''isbn'', JStr ''123'')]"

definition title_number :: json where
  "title_number = JObj [(''title'', JInt 7), (''author'', JStr ''Herbert''),
                        (''publication_year'', JInt 1965), (''isbn'', JStr ''123'')]"

definition dune_first_year :: Book where
  "dune_first_year = \<lparr>title = ''Dune'', author = ''Herbert'', publication_year = 1,
                       isbn = ''123'', book_id = 1\<rparr>"

section \<open>Facts about the table\<close>

lemma foldr_max_ge_start: "s \<le> foldr max xs (s::int)"
  by (induction xs) auto

lemma foldr_max_ge_elem: "x \<in> set xs \<Longrightarrow> x \<le> foldr max xs (s::int)"
  by (induction xs) auto

lemma sqlite_sequence_le_max_rowid: "sqlite_sequence t \<le> max_rowid t"
  by (simp add: max_rowid_def foldr_max_ge_start)

lemma book_id_le_max_rowid: "r \<in> set (books t) \<Longrightarrow> book_id r \<le> max_rowid t"
  by (simp add: max_rowid_def foldr_max_ge_elem)

lemma find_append_new:
  "\<forall>r \<in> set rows. \<not> P r \<Longrightarrow> P new \<Longrightarrow> find P (rows @ [new]) = Some new"
  by (induction rows) auto

lemma find_append_old:
  "find P rows = Some r \<Longrightarrow> find P (rows @ rest) = Some r"
  by (induction rows) (auto split: if_splits)

lemma find_map_update:
  "find (\<lambda>r. book_id r = i) rows \<noteq> None \<Longrightarrow> book_id u = i \<Longrightarrow>
   find (\<lambda>r. book_id r = i) (map (\<lambda>r. if book_id r = i then u else r) rows) = Some u"
  by (induction rows) auto

lemma find_map_other:
  "j \<noteq> i \<Longrightarrow> book_id u = i \<Longrightarrow>
   find (\<lambda>r. book_id r = j) (map (\<lambda>r. if book_id r = i then u else r) rows) =
   find (\<lambda>r. book_id r = j) rows"
  by (induction rows) auto

lemma find_filter_other:
  "j \<noteq> i \<Longrightarrow>
   find (\<lambda>r. book_id r = j) (filter (\<lambda>r. book_id r \<noteq> i) rows) =
   find (\<lambda>r. book_id r = j) rows"
  by (induction rows) auto

lemma find_filter_same:
  "find (\<lambda>r. book_id r = i) (filter (\<lambda>r. book_id r \<noteq> i) rows) = None"
  by (induction rows) auto

lemma find_None_iff_absent:
  "find (\<lambda>r. book_id r = i) rows = None \<longleftrightarrow> i \<notin> book_id ` set rows"
  by (induction rows) auto

text \<open>What each statement does to the rows of the other ids and to the counter.\<close>

lemma insert_returning_others:
  assumes "insert_returning book t = Inr (b, t')"
      and "find (\<lambda>r. book_id r = j) (books t) = Some r"
  shows "find (\<lambda>r. book_id r = j) (books t') = Some r"
  using assms by (auto simp: insert_returning_def Let_def find_append_old split: if_splits)

lemma update_returning_others:
  assumes "update_returning book i t = Inr (res, t')" and "j \<noteq> i"
  shows "find (\<lambda>r. book_id r = j) (books t') = find (\<lambda>r. book_id r = j) (books t)"
  using assms by (auto simp: update_returning_def Let_def find_map_other split: if_splits)

lemma delete_returning_others:
  assumes "delete_returning i t = Inr (res, t')" and "j \<noteq> i"
  shows "find (\<lambda>r. book_id r = j) (books t') = find (\<lambda>r. book_id r = j) (books t)"
  using assms by (auto simp: delete_returning_def find_filter_other split: if_splits)

lemma insert_returning_sequence:
  "insert_returning book t = Inr (b, t') \<Longrightarrow>
     sqlite_sequence t < book_id b \<and> sqlite_sequence t' = book_id b"
  using sqlite_sequence_le_max_rowid [of t]
  by (auto simp: insert_returning_def Let_def split: if_splits)

lemma update_returning_sequence:
  "update_returning book i t = Inr (res, t') \<Longrightarrow> sqlite_sequence t' = sqlite_sequence t"
  by (auto simp: update_returning_def Let_def split: if_splits)

lemma delete_returning_sequence:
  "delete_returning i t = Inr (res, t') \<Longrightarrow> sqlite_sequence t' = sqlite_sequence t"
  by (auto simp: delete_returning_def split: if_splits)

section \<open>The handlers as they are written\<close>

text \<open>
  \<open>get_db()\<close> is a generator object, so every \<^verbatim>\<open>with get_db() as conn\<close> raises before
  its block starts. No handler catches the exception: \<open>create_book\<close> catches
  \<^verbatim>\<open>sqlite3.IntegrityError\<close> only.
\<close>

lemma with_as_get_db: "with_as (get_db file) file block = (Inl TypeError, file)"
  by (simp add: with_as_def get_db_def)

lemma init_db_get_db: "init_db get_db file = (Inl TypeError, file)"
  by (simp add: init_db_def with_as_get_db)

lemma get_books_get_db: "get_books get_db file = (Inl TypeError, file)"
  by (simp add: get_books_def with_as_get_db)

lemma get_book_get_db: "get_book get_db i file = (Inl TypeError, file)"
  by (simp add: get_book_def with_as_get_db)

lemma create_book_get_db: "create_book get_db book file = (Inl TypeError, file)"
  by (simp add: create_book_def with_as_get_db)

lemma update_book_get_db: "update_book get_db i book file = (Inl TypeError, file)"
  by (simp add: update_book_def with_as_get_db)

lemma delete_book_get_db: "delete_book get_db i file = (Inl TypeError, file)"
  by (simp add: delete_book_def with_as_get_db)

lemma handle_get_db: "handle get_db r file = (Inl TypeError, file)"
  by (cases r)
     (simp_all add: get_books_get_db get_book_get_db create_book_get_db
        update_book_get_db delete_book_get_db)

lemma created_ids_get_db: "created_ids get_db rs file = []"
  by (induction rs arbitrary: "file") (simp_all add: handle_get_db split: request.splits)

section \<open>The handlers behind contextmanager\<close>

text \<open>
  With the decorator that line 5 imports applied to \<open>get_db\<close>, a handler is its SQL
  statement on the file, committed when the handler reaches \<^verbatim>\<open>conn.commit()\<close>.
\<close>

lemma with_as_contextmanager:
  "with_as (contextmanager get_db file) file block =
     (case block (connect file) of (res, conn') \<Rightarrow> (res, close conn'))"
  by (simp add: with_as_def contextmanager_def get_db_def)

lemma get_books_contextmanager:
  "get_books (contextmanager get_db) file = (Inr (books file), file)"
  by (simp add: get_books_def with_as_contextmanager connect_def close_def)

lemma get_book_contextmanager:
  "get_book (contextmanager get_db) i file =
     (case select_where_id i file of
        Inl e \<Rightarrow> (Inl e, file)
      | Inr None \<Rightarrow> (Inl (HTTPException 404 ''Book not found''), file)
      | Inr (Some book) \<Rightarrow> (Inr book, file))"
  by (simp add: get_book_def with_as_contextmanager connect_def close_def
      split: sum.splits option.splits)

lemma create_book_contextmanager:
  "create_book (contextmanager get_db) book file =
     (case insert_returning book file of
        Inl e \<Rightarrow>
          (if e = IntegrityError then Inl (HTTPException 400 ''ISBN already exists'') else Inl e,
           file)
      | Inr (new_book, t) \<Rightarrow> (Inr new_book, t))"
  by (simp add: create_book_def with_as_contextmanager connect_def close_def commit_def Let_def
      split: sum.splits prod.splits)

lemma update_book_contextmanager:
  "update_book (contextmanager get_db) i book file =
     (case update_returning book i file of
        Inl e \<Rightarrow> (Inl e, file)
      | Inr (None, t) \<Rightarrow> (Inl (HTTPException 404 ''Book not found''), file)
      | Inr (Some updated_book, t) \<Rightarrow> (Inr updated_book, t))"
  by (simp add: update_book_def with_as_contextmanager connect_def close_def commit_def
      split: sum.splits option.splits prod.splits)

lemma delete_book_contextmanager:
  "delete_book (contextmanager get_db) i file =
     (case delete_returning i file of
        Inl e \<Rightarrow> (Inl e, file)
      | Inr (None, t) \<Rightarrow> (Inl (HTTPException 404 ''Book not found''), file)
      | Inr (Some j, t) \<Rightarrow> (Inr ''Book deleted successfully'', t))"
  by (simp add: delete_book_def with_as_contextmanager connect_def close_def commit_def
      split: sum.splits option.splits prod.splits)

text \<open>
  Behind the decorator the handlers do what the specification describes, as long as the
  integers fit SQLite's 64 bits and the rowids are not used up.
\<close>

lemma create_then_get_contextmanager:
  assumes year: "sqlite_integer (publication_year book)"
      and seq: "0 \<le> sqlite_sequence file"
      and room: "max_rowid file < 2 ^ 63 - 1"
      and fresh: "isbn book \<notin> set (map isbn (books file))"
  shows "\<exists>b file'. create_book (contextmanager get_db) book file = (Inr b, file')
           \<and> title b = title book \<and> author b = author book
           \<and> publication_year b = publication_year book \<and> isbn b = isbn book
           \<and> get_book (contextmanager get_db) (book_id b) file' = (Inr b, file')"
proof -
  define b :: Book where
    "b = \<lparr>title = title book, author = author book, publication_year = publication_year book,
          isbn = isbn book, book_id = max_rowid file + 1\<rparr>"
  define file' where "file' = \<lparr>books = books file @ [b], sqlite_sequence = max_rowid file + 1\<rparr>"
  have ins: "insert_returning book file = Inr (b, file')"
    using year room fresh by (simp add: insert_returning_def Let_def b_def file'_def)
  have "0 \<le> max_rowid file"
    using seq sqlite_sequence_le_max_rowid [of "file"] by simp
  with room have int: "sqlite_integer (book_id b)"
    by (simp add: sqlite_integer_def b_def)
  have "\<forall>r \<in> set (books file). book_id r \<noteq> book_id b"
    using book_id_le_max_rowid [of _ "file"] by (fastforce simp: b_def)
  then have "find (\<lambda>r. book_id r = book_id b) (books file @ [b]) = Some b"
    by (intro find_append_new) auto
  then have sel: "select_where_id (book_id b) file' = Inr (Some b)"
    using int by (simp add: select_where_id_def file'_def)
  have "create_book (contextmanager get_db) book file = (Inr b, file')"
    by (simp add: create_book_contextmanager ins)
  moreover have "get_book (contextmanager get_db) (book_id b) file' = (Inr b, file')"
    by (simp add: get_book_contextmanager sel)
  ultimately show ?thesis
    by (intro exI [of _ b] exI [of _ file']) (simp add: b_def)
qed

lemma duplicate_isbn_contextmanager:
  assumes "sqlite_integer (publication_year book)"
      and "max_rowid file < 2 ^ 63 - 1"
      and "isbn book \<in> set (map isbn (books file))"
  shows "create_book (contextmanager get_db) book file =
           (Inl (HTTPException 400 ''ISBN already exists''), file)"
  using assms by (simp add: create_book_contextmanager insert_returning_def)

lemma update_then_get_contextmanager:
  assumes "sqlite_integer (publication_year book)" and "sqlite_integer i"
      and "i \<in> set (map book_id (books file))"
      and "isbn book \<notin> set (map isbn (filter (\<lambda>r. book_id r \<noteq> i) (books file)))"
  shows "\<exists>file'. update_book (contextmanager get_db) i book file =
             (Inr \<lparr>title = title book, author = author book,
                   publication_year = publication_year book, isbn = isbn book, book_id = i\<rparr>, file')
           \<and> get_book (contextmanager get_db) i file' =
             (Inr \<lparr>title = title book, author = author book,
                   publication_year = publication_year book, isbn = isbn book, book_id = i\<rparr>, file')"
proof -
  define u :: Book where
    "u = \<lparr>title = title book, author = author book, publication_year = publication_year book,
          isbn = isbn book, book_id = i\<rparr>"
  define file' where
    "file' = file\<lparr>books := map (\<lambda>r. if book_id r = i then u else r) (books file)\<rparr>"
  have upd: "update_returning book i file = Inr (Some u, file')"
    using assms by (simp add: update_returning_def Let_def u_def file'_def)
  have "find (\<lambda>r. book_id r = i) (books file) \<noteq> None"
    using assms(3) by (simp add: find_None_iff_absent)
  then have "find (\<lambda>r. book_id r = i) (books file') = Some u"
    by (simp add: file'_def find_map_update u_def)
  then have sel: "select_where_id i file' = Inr (Some u)"
    using assms(2) by (simp add: select_where_id_def)
  show ?thesis
    by (intro exI [of _ file'])
       (simp add: update_book_contextmanager upd get_book_contextmanager sel flip: u_def)
qed

lemma update_absent_contextmanager:
  assumes "sqlite_integer (publication_year book)" and "sqlite_integer i"
      and "i \<notin> set (map book_id (books file))"
  shows "update_book (contextmanager get_db) i book file =
           (Inl (HTTPException 404 ''Book not found''), file)"
  using assms by (simp add: update_book_contextmanager update_returning_def)

lemma delete_then_get_contextmanager:
  assumes "sqlite_integer i" and "i \<in> set (map book_id (books file))"
  shows "\<exists>file'. delete_book (contextmanager get_db) i file =
             (Inr ''Book deleted successfully'', file')
           \<and> get_book (contextmanager get_db) i file' =
             (Inl (HTTPException 404 ''Book not found''), file')"
  using assms
  by (simp add: delete_book_contextmanager delete_returning_def get_book_contextmanager
      select_where_id_def find_filter_same)

lemma delete_absent_contextmanager:
  assumes "sqlite_integer i" and "i \<notin> set (map book_id (books file))"
  shows "delete_book (contextmanager get_db) i file =
           (Inl (HTTPException 404 ''Book not found''), file)"
  using assms by (simp add: delete_book_contextmanager delete_returning_def)

lemma get_absent_contextmanager:
  assumes "sqlite_integer i" and "i \<notin> set (map book_id (books file))"
  shows "get_book (contextmanager get_db) i file =
           (Inl (HTTPException 404 ''Book not found''), file)"
proof -
  have "find (\<lambda>r. book_id r = i) (books file) = None"
    using assms(2) by (simp add: find_None_iff_absent)
  with assms(1) show ?thesis
    by (simp add: get_book_contextmanager select_where_id_def)
qed

lemma get_present_contextmanager:
  assumes "sqlite_integer i" and "find (\<lambda>r. book_id r = i) (books file) = Some r"
  shows "get_book (contextmanager get_db) i file = (Inr r, file)"
  using assms by (simp add: get_book_contextmanager select_where_id_def)

text \<open>The handlers on the example data.\<close>

lemma create_dune_contextmanager:
  "create_book (contextmanager get_db) dune empty_db = (Inr dune_row, one_book)"
  by (simp add: create_book_contextmanager insert_returning_def sqlite_integer_def
      max_rowid_def Let_def dune_def dune_row_def one_book_def empty_db_def)

lemma get_dune_contextmanager:
  "get_book (contextmanager get_db) 1 one_book = (Inr dune_row, one_book)"
  by (simp add: get_book_contextmanager select_where_id_def sqlite_integer_def
      one_book_def dune_row_def)

lemma get_missing_contextmanager:
  "get_book (contextmanager get_db) 2 one_book =
     (Inl (HTTPException 404 ''Book not found''), one_book)"
  by (simp add: get_book_contextmanager select_where_id_def sqlite_integer_def
      one_book_def dune_row_def)

section \<open>The constraints of the schema\<close>

text \<open>
  Every request keeps the ids and the isbns of the table distinct, as \<^verbatim>\<open>PRIMARY KEY\<close>
  and \<^verbatim>\<open>UNIQUE\<close> demand.
\<close>

lemma distinct_isbn_update:
  assumes "distinct (map book_id rows)" and "distinct (map isbn rows)"
      and "isbn u \<notin> set (map isbn (filter (\<lambda>r. book_id r \<noteq> i) rows))"
    shows "distinct (map isbn (map (\<lambda>r. if book_id r = i then u else r) rows))"
  using assms
proof (induction rows)
  case Nil
  then show ?case by simp
next
  case (Cons r rows)
  show ?case
  proof (cases "book_id r = i")
    case True
    then have "\<forall>x \<in> set rows. book_id x \<noteq> i" using Cons.prems(1) by (auto simp: image_iff)
    then have same: "map (\<lambda>r. if book_id r = i then u else r) rows = rows"
      by (induction rows) auto
    have "filter (\<lambda>r. book_id r \<noteq> i) rows = rows"
      using \<open>\<forall>x \<in> set rows. book_id x \<noteq> i\<close> by (induction rows) auto
    with Cons.prems True same show ?thesis by simp
  next
    case False
    with Cons show ?thesis by (auto simp: image_iff)
  qed
qed

lemma distinct_ids_update:
  "distinct (map book_id rows) \<Longrightarrow> book_id u = i \<Longrightarrow>
   map book_id (map (\<lambda>r. if book_id r = i then u else r) rows) = map book_id rows"
  by (induction rows) auto

lemma insert_returning_constraints:
  "insert_returning book t = Inr (b, t') \<Longrightarrow> constraints t \<Longrightarrow> constraints t'"
  using book_id_le_max_rowid [of _ t]
  by (fastforce simp: insert_returning_def Let_def constraints_def split: if_splits)

lemma update_returning_constraints:
  "update_returning book i t = Inr (res, t') \<Longrightarrow> constraints t \<Longrightarrow> constraints t'"
  by (auto simp: update_returning_def Let_def constraints_def distinct_ids_update
      distinct_isbn_update distinct_map_filter simp del: map_map split: if_splits)

lemma delete_returning_constraints:
  "delete_returning i t = Inr (res, t') \<Longrightarrow> constraints t \<Longrightarrow> constraints t'"
  by (auto simp: delete_returning_def constraints_def distinct_map_filter split: if_splits)

lemma handle_constraints:
  assumes "getdb = get_db \<or> getdb = contextmanager get_db" and "constraints file"
  shows "constraints (snd (handle getdb r file))"
  using assms(1)
proof
  assume "getdb = get_db"
  with assms(2) show ?thesis by (simp add: handle_get_db)
next
  assume "getdb = contextmanager get_db"
  with assms(2) show ?thesis
    by (cases r;
        auto simp: get_books_contextmanager get_book_contextmanager
          create_book_contextmanager update_book_contextmanager delete_book_contextmanager
          split: sum.splits option.splits prod.splits
          dest: insert_returning_constraints update_returning_constraints
            delete_returning_constraints)
qed

section \<open>The claims\<close>

subsection \<open>Creating a record and reading it back\<close>

text \<open>
  C1. For every valid input whose isbn is not in the table, create succeeds, and get with
  the returned id gives a record with the fields of the input and that id.
  In the program as it is written this fails at the first request: \<open>create_book\<close>
  raises TypeError on the empty table and stores nothing. Behind \<open>contextmanager\<close> the
  same request creates the record with id 1, and get(1) returns it.
\<close>

theorem create_book_raises_TypeError:
  "create_book get_db dune empty_db = (Inl TypeError, empty_db)
   \<and> create_book (contextmanager get_db) dune empty_db = (Inr dune_row, one_book)
   \<and> get_book (contextmanager get_db) 1 one_book = (Inr dune_row, one_book)"
  by (simp add: create_book_get_db create_dune_contextmanager get_dune_contextmanager)

subsection \<open>Creating a record whose isbn is taken\<close>

text \<open>
  C2. When the isbn of the input is the isbn of a record in the table, create fails with
  Conflict (HTTP 400) and the table is unchanged.
  In the program as it is written the table is unchanged, but the failure is the
  uncaught TypeError, which FastAPI answers with 500. Behind \<open>contextmanager\<close> the same
  request gives the HTTPException with status 400.
\<close>

theorem create_book_duplicate_isbn_raises_TypeError:
  "create_book get_db dune one_book = (Inl TypeError, one_book)
   \<and> status_code TypeError = 500
   \<and> create_book (contextmanager get_db) dune one_book =
       (Inl (HTTPException 400 ''ISBN already exists''), one_book)"
  by (simp add: create_book_get_db create_book_contextmanager insert_returning_def
      sqlite_integer_def max_rowid_def dune_def one_book_def dune_row_def)

subsection \<open>Updating a record to an isbn that is taken\<close>

text \<open>
  C3. In a state that holds a record at \<open>i\<close> and another record whose isbn is the isbn
  of the input, update(i, input) returns an error and leaves the table as it was. This
  holds for the program as it is written and for the program behind \<open>contextmanager\<close>,
  where the UPDATE statement raises and the handler does not commit.
\<close>

theorem update_colliding_isbn_fails:
  assumes "getdb = get_db \<or> getdb = contextmanager get_db"
      and "i \<in> set (map book_id (books file))"
      and "\<exists>r \<in> set (books file). book_id r \<noteq> i \<and> isbn r = isbn book"
  shows "\<exists>e. update_book getdb i book file = (Inl e, file)"
  using assms(1)
proof
  assume "getdb = get_db"
  then show ?thesis by (simp add: update_book_get_db)
next
  assume cm: "getdb = contextmanager get_db"
  have "isbn book \<in> set (map isbn (filter (\<lambda>r. book_id r \<noteq> i) (books file)))"
    using assms(3) by force
  with assms(2) have "\<exists>e. update_returning book i file = Inl e"
    by (simp add: update_returning_def)
  then show ?thesis
    using cm by (auto simp: update_book_contextmanager)
qed

theorem update_colliding_isbn_fails_witness:
  "1 \<in> set (map book_id (books two_books))
   \<and> (\<exists>r \<in> set (books two_books). book_id r \<noteq> 1 \<and> isbn r = isbn emma)
   \<and> (\<exists>e. update_book (contextmanager get_db) 1 emma two_books = (Inl e, two_books))
   \<and> (\<exists>e. update_book get_db 1 emma two_books = (Inl e, two_books))"
proof -
  have h1: "1 \<in> set (map book_id (books two_books))"
    by (simp add: two_books_def dune_row_def)
  have h2: "\<exists>r \<in> set (books two_books). book_id r \<noteq> 1 \<and> isbn r = isbn emma"
    by (simp add: two_books_def dune_row_def emma_row_def emma_def)
  show ?thesis
    using h1 h2
      update_colliding_isbn_fails [of "contextmanager get_db" 1 two_books emma]
      update_colliding_isbn_fails [of get_db 1 two_books emma]
    by simp
qed

subsection \<open>Updating a record and reading it back\<close>

text \<open>
  C4. For an id that is in the table and a valid input whose isbn belongs to no other
  record, update succeeds, and get(id) gives the fields of the input under the same id.
  In the program as it is written \<open>update_book\<close> raises TypeError and the record keeps
  its old fields. Behind \<open>contextmanager\<close> the same request replaces the fields and
  get(1) returns them with id 1.
\<close>

theorem update_book_raises_TypeError:
  "update_book get_db 1 emma one_book = (Inl TypeError, one_book)
   \<and> update_book (contextmanager get_db) 1 emma one_book =
       (Inr emma_first, \<lparr>books = [emma_first], sqlite_sequence = 1\<rparr>)
   \<and> get_book (contextmanager get_db) 1 \<lparr>books = [emma_first], sqlite_sequence = 1\<rparr> =
       (Inr emma_first, \<lparr>books = [emma_first], sqlite_sequence = 1\<rparr>)"
  by (simp add: update_book_get_db update_book_contextmanager update_returning_def
      get_book_contextmanager select_where_id_def sqlite_integer_def Let_def
      emma_def emma_first_def one_book_def dune_row_def)

subsection \<open>Deleting a record\<close>

text \<open>
  C5. For an id in the table delete succeeds with a confirmation message and get(id)
  then fails with NotFound (404); for an id that is not in the table delete fails with
  NotFound.
  In the program as it is written \<open>delete_book\<close> raises TypeError for both ids and the
  record stays. Behind \<open>contextmanager\<close> delete(1) removes the record and confirms,
  get(1) then gives 404, and delete(2) gives 404.
\<close>

theorem delete_book_raises_TypeError:
  "delete_book get_db 1 one_book = (Inl TypeError, one_book)
   \<and> delete_book get_db 2 one_book = (Inl TypeError, one_book)
   \<and> delete_book (contextmanager get_db) 1 one_book =
       (Inr ''Book deleted successfully'', \<lparr>books = [], sqlite_sequence = 1\<rparr>)
   \<and> get_book (contextmanager get_db) 1 \<lparr>books = [], sqlite_sequence = 1\<rparr> =
       (Inl (HTTPException 404 ''Book not found''), \<lparr>books = [], sqlite_sequence = 1\<rparr>)
   \<and> delete_book (contextmanager get_db) 2 one_book =
       (Inl (HTTPException 404 ''Book not found''), one_book)"
  by (simp add: delete_book_get_db delete_book_contextmanager delete_returning_def
      get_book_contextmanager select_where_id_def sqlite_integer_def
      one_book_def dune_row_def)

subsection \<open>Reading a record\<close>

text \<open>
  C6. For an id that is not in the table get fails with NotFound (404); for an id that is
  in the table get returns the stored record.
  In the program as it is written \<open>get_book\<close> raises TypeError for both ids. Behind
  \<open>contextmanager\<close> get(2) gives 404 and get(1) returns the record.
\<close>

theorem get_book_raises_TypeError:
  "get_book get_db 2 one_book = (Inl TypeError, one_book)
   \<and> get_book get_db 1 one_book = (Inl TypeError, one_book)
   \<and> get_book (contextmanager get_db) 2 one_book =
       (Inl (HTTPException 404 ''Book not found''), one_book)
   \<and> get_book (contextmanager get_db) 1 one_book = (Inr dune_row, one_book)"
  by (simp add: get_book_get_db get_missing_contextmanager get_dune_contextmanager)

subsection \<open>Empty titles and authors\<close>

lemma int_literal_ok_small: "\<bar>n\<bar> < 10 ^ 18 \<Longrightarrow> int_literal_ok n"
proof -
  assume small: "\<bar>n\<bar> < 10 ^ 18"
  have "(10::int) ^ 18 \<le> 10 ^ 4300"
    by (rule power_increasing) simp_all
  with small show ?thesis
    unfolding int_literal_ok_def by (rule less_le_trans)
qed

lemma int_literal_ok_examples: "int_literal_ok 1965" "int_literal_ok 7"
  by (rule int_literal_ok_small, simp)+

lemma not_int_literal_ok_huge: "\<not> int_literal_ok huge"
proof -
  have "(0::int) \<le> 10 ^ 4300"
    by (rule zero_le_power) simp
  then have "\<bar>(10::int) ^ 4300\<bar> = 10 ^ 4300"
    by (rule abs_of_nonneg)
  then show ?thesis
    unfolding int_literal_ok_def huge_def by (simp only: less_irrefl not_False_eq_True)
qed








subsection \<open>Bodies that the validation refuses\<close>

lemma digits_1965: "digits ''1965''" "int_of_digits ''1965'' = 1965"
  by (simp_all add: digits_def digit_def int_of_digits_def)

lemma request_body_year_digits:
  assumes "digits d"
  shows "request_body mixed
           (Decoded (JObj [(''title'', JStr t), (''author'', JStr a),
                           (''publication_year'', JStr d), (''isbn'', JStr s)]))
         = Inr \<lparr>title = t, author = a, publication_year = int_of_digits d, isbn = s\<rparr>"
  using assms
  by (simp add: request_body_def validate_BookCreate_def get_field_def validate_str_def
      validate_int_def)

lemma request_body_year_bool:
  "request_body mixed
     (Decoded (JObj [(''title'', JStr t), (''author'', JStr a),
                     (''publication_year'', JBool b), (''isbn'', JStr s)]))
   = Inr \<lparr>title = t, author = a, publication_year = (if b then 1 else 0), isbn = s\<rparr>"
  by (simp add: request_body_def validate_BookCreate_def get_field_def validate_str_def
      validate_int_def)

lemma request_body_year_as_text: "request_body no_mixed (Decoded year_as_text) = Inr dune"
  using request_body_year_digits [OF digits_1965(1), of no_mixed "''Dune''" "''Herbert''" "''123''"]
  by (simp add: year_as_text_def dune_def digits_1965(2))

lemma request_body_year_true:
  "request_body no_mixed (Decoded year_true) =
     Inr \<lparr>title = ''Dune'', author = ''Herbert'', publication_year = 1, isbn = ''123''\<rparr>"
  using request_body_year_bool [of no_mixed "''Dune''" "''Herbert''" True "''123''"]
  by (simp add: year_true_def)

lemma request_body_huge_year:
  "request_body no_mixed (Decoded huge_year) =
     Inl (HTTPException 400 ''There was an error parsing the body'')"
  by (simp add: request_body_def huge_year_def not_int_literal_ok_huge)

lemma create_dune_first_year_contextmanager:
  "create_book (contextmanager get_db)
     \<lparr>title = ''Dune'', author = ''Herbert'', publication_year = 1, isbn = ''123''\<rparr> empty_db =
     (Inr dune_first_year, \<lparr>books = [dune_first_year], sqlite_sequence = 1\<rparr>)"
  by (simp add: create_book_contextmanager insert_returning_def sqlite_integer_def
      max_rowid_def Let_def dune_first_year_def empty_db_def)

text \<open>
  C8, as the specification states it: a create or update whose body is malformed, lacks a
  field or has a field of the wrong type fails with ValidationError (422) before any
  storage statement runs.
  It fails in three places. A publication_year sent as the JSON string "1965" is converted
  to the integer 1965 and one sent as \<^verbatim>\<open>true\<close> is converted to 1; the handler runs, and
  as the program is written it raises TypeError, while behind \<open>contextmanager\<close> it
  creates the record. A body whose publication_year is an integer literal of 4301 digits
  is answered with status 400. None of these answers is a ValidationError.
\<close>

theorem year_as_text_counterexample:
  "request_body no_mixed (Decoded year_as_text) = Inr dune
   \<and> post_items get_db no_mixed (Decoded year_as_text) empty_db = (Inl TypeError, empty_db)
   \<and> post_items (contextmanager get_db) no_mixed (Decoded year_as_text) empty_db =
       (Inr dune_row, one_book)
   \<and> post_items get_db no_mixed (Decoded year_true) empty_db = (Inl TypeError, empty_db)
   \<and> post_items (contextmanager get_db) no_mixed (Decoded year_true) empty_db =
       (Inr dune_first_year, \<lparr>books = [dune_first_year], sqlite_sequence = 1\<rparr>)
   \<and> post_items get_db no_mixed (Decoded huge_year) empty_db =
       (Inl (HTTPException 400 ''There was an error parsing the body''), empty_db)
   \<and> put_items get_db no_mixed 1 (Decoded huge_year) one_book =
       (Inl (HTTPException 400 ''There was an error parsing the body''), one_book)"
  by (simp add: post_items_def put_items_def request_body_year_as_text request_body_year_true
      request_body_huge_year create_book_get_db create_dune_contextmanager
      create_dune_first_year_contextmanager)

lemma wrong_str_get_field:
  "wrong_str (map_of (rev kvs) name) \<Longrightarrow> get_field kvs name validate_str = None"
  by (cases "map_of (rev kvs) name" rule: wrong_str.cases)
     (simp_all add: get_field_def validate_str_def)

lemma digits_numeric: "digits s \<Longrightarrow> list_ex digit s \<and> list_all numeric_char s"
  by (cases s) (auto simp: digits_def numeric_char_def list_all_iff list_ex_iff)

lemma wrong_int_get_field:
  "wrong_int (map_of (rev kvs) name) \<Longrightarrow> get_field kvs name (validate_int mixed) = None"
  using digits_numeric
  by (cases "map_of (rev kvs) name" rule: wrong_int.cases)
     (auto simp: get_field_def validate_int_def)

lemma wrong_fields_validate:
  assumes "wrong_fields v"
  shows "validate_BookCreate mixed v = Inl RequestValidationError"
proof (cases v)
  case (JObj kvs)
  from assms JObj
  consider "wrong_str (map_of (rev kvs) ''title'')"
    | "wrong_str (map_of (rev kvs) ''author'')"
    | "wrong_int (map_of (rev kvs) ''publication_year'')"
    | "wrong_str (map_of (rev kvs) ''isbn'')"
    by (auto simp: wrong_fields_def)
  then show ?thesis
    by cases
       (simp_all add: validate_BookCreate_def JObj wrong_str_get_field wrong_int_get_field
          split: option.splits)
qed (simp_all add: validate_BookCreate_def)

lemma refused_request_body:
  assumes "refused b"
  shows "request_body mixed b = Inl RequestValidationError"
  using assms
  by (cases b) (simp_all add: request_body_def refused_def wrong_fields_validate)

lemma undecodable_request_body:
  assumes "undecodable b"
  shows "request_body mixed b = Inl (HTTPException 400 ''There was an error parsing the body'')"
  using assms by (cases b) (simp_all add: request_body_def undecodable_def)

text \<open>
  C8, amended. A create or update fails with ValidationError (422) before the handler and
  any storage statement runs, and leaves the table unchanged, when its body is not JSON,
  is JSON and not an object, lacks one of title, author, publication_year and isbn, has a
  title, author or isbn that is not a JSON string, or has a publication_year that is
  null, an array, an object, a string without a decimal digit or a string with a
  character other than digits, signs, underscores, dots and white space.
  A body on which the JSON decoder raises another exception than a syntax error, as it
  does on an integer literal of more than 4300 digits, is answered with status 400 before
  the handler runs, and the table is unchanged.
  A publication_year sent as a string of 1 to 4300 decimal digits or as a boolean is
  converted to an integer, and the answer is the answer of the handler.
\<close>

theorem refused_body_is_validation_error:
  "(refused b \<longrightarrow>
      post_items getdb mixed b file = (Inl RequestValidationError, file)
      \<and> put_items getdb mixed i b file = (Inl RequestValidationError, file))
   \<and> (undecodable b \<longrightarrow>
      post_items getdb mixed b file =
        (Inl (HTTPException 400 ''There was an error parsing the body''), file)
      \<and> put_items getdb mixed i b file =
        (Inl (HTTPException 400 ''There was an error parsing the body''), file))
   \<and> (digits d \<longrightarrow>
      post_items getdb mixed
        (Decoded (JObj [(''title'', JStr t), (''author'', JStr a),
                        (''publication_year'', JStr d), (''isbn'', JStr s)])) file
        = create_book getdb
            \<lparr>title = t, author = a, publication_year = int_of_digits d, isbn = s\<rparr> file
      \<and> put_items getdb mixed i
        (Decoded (JObj [(''title'', JStr t), (''author'', JStr a),
                        (''publication_year'', JStr d), (''isbn'', JStr s)])) file
        = update_book getdb i
            \<lparr>title = t, author = a, publication_year = int_of_digits d, isbn = s\<rparr> file)
   \<and> post_items getdb mixed
        (Decoded (JObj [(''title'', JStr t), (''author'', JStr a),
                        (''publication_year'', JBool y), (''isbn'', JStr s)])) file
        = create_book getdb
            \<lparr>title = t, author = a, publication_year = (if y then 1 else 0), isbn = s\<rparr> file
   \<and> put_items getdb mixed i
        (Decoded (JObj [(''title'', JStr t), (''author'', JStr a),
                        (''publication_year'', JBool y), (''isbn'', JStr s)])) file
        = update_book getdb i
            \<lparr>title = t, author = a, publication_year = (if y then 1 else 0), isbn = s\<rparr> file"
proof (intro conjI impI)
  assume "refused b"
  then have r: "request_body mixed b = Inl RequestValidationError"
    by (rule refused_request_body)
  show "post_items getdb mixed b file = (Inl RequestValidationError, file)"
    by (simp add: post_items_def r)
  show "put_items getdb mixed i b file = (Inl RequestValidationError, file)"
    by (simp add: put_items_def r)
next
  assume "undecodable b"
  then have r: "request_body mixed b =
      Inl (HTTPException 400 ''There was an error parsing the body'')"
    by (rule undecodable_request_body)
  show "post_items getdb mixed b file =
      (Inl (HTTPException 400 ''There was an error parsing the body''), file)"
    by (simp add: post_items_def r)
  show "put_items getdb mixed i b file =
      (Inl (HTTPException 400 ''There was an error parsing the body''), file)"
    by (simp add: put_items_def r)
next
  assume d: "digits d"
  show "post_items getdb mixed
        (Decoded (JObj [(''title'', JStr t), (''author'', JStr a),
                        (''publication_year'', JStr d), (''isbn'', JStr s)])) file
        = create_book getdb
            \<lparr>title = t, author = a, publication_year = int_of_digits d, isbn = s\<rparr> file"
    by (simp add: post_items_def request_body_year_digits [OF d])
  show "put_items getdb mixed i
        (Decoded (JObj [(''title'', JStr t), (''author'', JStr a),
                        (''publication_year'', JStr d), (''isbn'', JStr s)])) file
        = update_book getdb i
            \<lparr>title = t, author = a, publication_year = int_of_digits d, isbn = s\<rparr> file"
    by (simp add: put_items_def request_body_year_digits [OF d])
next
  show "post_items getdb mixed
        (Decoded (JObj [(''title'', JStr t), (''author'', JStr a),
                        (''publication_year'', JBool y), (''isbn'', JStr s)])) file
        = create_book getdb
            \<lparr>title = t, author = a, publication_year = (if y then 1 else 0), isbn = s\<rparr> file"
    by (simp only: post_items_def request_body_year_bool sum.case)
  show "put_items getdb mixed i
        (Decoded (JObj [(''title'', JStr t), (''author'', JStr a),
                        (''publication_year'', JBool y), (''isbn'', JStr s)])) file
        = update_book getdb i
            \<lparr>title = t, author = a, publication_year = (if y then 1 else 0), isbn = s\<rparr> file"
    by (simp only: put_items_def request_body_year_bool sum.case)
qed

lemma refused_examples:
  "refused NotJSON" "refused (Decoded (JArr []))" "refused (Decoded no_author)"
  "refused (Decoded year_abc)" "refused (Decoded title_number)"
  by (simp_all add: refused_def wrong_fields_def no_author_def year_abc_def title_number_def
      digit_def int_literal_ok_examples)

theorem refused_body_is_validation_error_witness:
  "refused (Decoded no_author) \<and> refused (Decoded year_abc) \<and> refused (Decoded title_number)
   \<and> undecodable (Decoded huge_year) \<and> digits ''1965''
   \<and> post_items get_db no_mixed (Decoded no_author) one_book =
       (Inl RequestValidationError, one_book)
   \<and> post_items get_db no_mixed (Decoded year_abc) one_book =
       (Inl RequestValidationError, one_book)
   \<and> put_items get_db no_mixed 1 (Decoded title_number) one_book =
       (Inl RequestValidationError, one_book)
   \<and> post_items get_db no_mixed (Decoded huge_year) one_book =
       (Inl (HTTPException 400 ''There was an error parsing the body''), one_book)
   \<and> post_items get_db no_mixed (Decoded year_as_text) one_book =
       create_book get_db dune one_book"
proof -
  have u: "undecodable (Decoded huge_year)"
    by (simp add: undecodable_def huge_year_def not_int_literal_ok_huge)
  show ?thesis
    using refused_examples(3,4,5) u digits_1965
      refused_body_is_validation_error [of "Decoded no_author" get_db no_mixed one_book 1]
      refused_body_is_validation_error [of "Decoded year_abc" get_db no_mixed one_book 1]
      refused_body_is_validation_error [of "Decoded title_number" get_db no_mixed one_book 1]
      refused_body_is_validation_error [of "Decoded huge_year" get_db no_mixed one_book 1]
      refused_body_is_validation_error [of _ get_db no_mixed one_book 1 "''1965''" "''Dune''" "''Herbert''" "''123''"]
    by (simp add: year_as_text_def dune_def)
qed

subsection \<open>Ids grow\<close>

lemma handle_sequence:
  assumes "handle (contextmanager get_db) r file = (res, file')"
  shows "sqlite_sequence file \<le> sqlite_sequence file'"
    and "\<And>book b. r = POST_item book \<Longrightarrow> res = Inr (OneBook b) \<Longrightarrow>
           sqlite_sequence file < book_id b \<and> sqlite_sequence file' = book_id b"
  using assms
  by (cases r;
      auto simp: get_books_contextmanager
        get_book_contextmanager create_book_contextmanager update_book_contextmanager
        delete_book_contextmanager
        split: sum.splits option.splits if_splits prod.splits
        dest: insert_returning_sequence update_returning_sequence delete_returning_sequence)+

lemma created_ids_above_sequence:
  "\<forall>x \<in> set (created_ids (contextmanager get_db) rs file). sqlite_sequence file < x"
proof (induction rs arbitrary: "file")
  case Nil
  show ?case by simp
next
  case (Cons r rs)
  obtain res file' where h: "handle (contextmanager get_db) r file = (res, file')"
    by (cases "handle (contextmanager get_db) r file")
  note mono = handle_sequence(1) [OF h] and post = handle_sequence(2) [OF h]
  have rest: "\<forall>x \<in> set (created_ids (contextmanager get_db) rs file'). sqlite_sequence file < x"
    using Cons.IH [of file'] mono by force
  show ?case
    using h rest post
    by (auto split: request.splits sum.splits response.splits)
qed

lemma created_ids_sorted_contextmanager:
  "sorted_wrt (<) (created_ids (contextmanager get_db) rs file)"
proof (induction rs arbitrary: "file")
  case Nil
  show ?case by simp
next
  case (Cons r rs)
  obtain res file' where h: "handle (contextmanager get_db) r file = (res, file')"
    by (cases "handle (contextmanager get_db) r file")
  note post = handle_sequence(2) [OF h]
  have above: "\<forall>x \<in> set (created_ids (contextmanager get_db) rs file'). sqlite_sequence file' < x"
    by (rule created_ids_above_sequence)
  show ?case
    using h Cons.IH [of file'] above post
    by (auto split: request.splits sum.splits response.splits)
qed

text \<open>
  C9. In every sequence of requests, from every state of the file, each successful create
  returns an id strictly greater than every id that an earlier create of the sequence
  returned, whatever was deleted in between: the ids of the successful creates, in the
  order of the requests, are strictly increasing. Behind \<open>contextmanager\<close> this is the
  work of \<open>AUTOINCREMENT\<close>, whose counter a DELETE does not lower; in the program as it
  is written no create succeeds and the list of ids is empty.
\<close>

theorem created_ids_strictly_increasing:
  assumes "getdb = get_db \<or> getdb = contextmanager get_db"
  shows "sorted_wrt (<) (created_ids getdb rs file)"
  using assms by (auto simp: created_ids_get_db created_ids_sorted_contextmanager)

theorem created_ids_strictly_increasing_witness:
  "created_ids (contextmanager get_db)
     [POST_item dune, DELETE_item 1, POST_item dune, POST_item dune, POST_item emma] empty_db
     = [1, 2, 3]
   \<and> sorted_wrt (<) (created_ids (contextmanager get_db)
     [POST_item dune, DELETE_item 1, POST_item dune, POST_item dune, POST_item emma] empty_db)"
proof -
  have ids: "created_ids (contextmanager get_db)
     [POST_item dune, DELETE_item 1, POST_item dune, POST_item dune, POST_item emma] empty_db
     = [1, 2, 3]"
    by (simp add: create_book_contextmanager delete_book_contextmanager insert_returning_def
        delete_returning_def sqlite_integer_def max_rowid_def Let_def
        dune_def emma_def empty_db_def)
  show ?thesis
    using ids created_ids_strictly_increasing [of "contextmanager get_db"
      "[POST_item dune, DELETE_item 1, POST_item dune, POST_item dune, POST_item emma]" empty_db]
    by simp
qed

subsection \<open>The other records\<close>

lemma create_book_others:
  assumes "getdb = get_db \<or> getdb = contextmanager get_db"
      and "find (\<lambda>r. book_id r = j) (books file) = Some r"
  shows "find (\<lambda>r. book_id r = j) (books (snd (create_book getdb book file))) = Some r"
  using assms
  by (auto simp: create_book_get_db create_book_contextmanager insert_returning_others
      split: sum.splits)

lemma update_book_others:
  assumes "getdb = get_db \<or> getdb = contextmanager get_db" and "j \<noteq> i"
  shows "find (\<lambda>r. book_id r = j) (books (snd (update_book getdb i book file))) =
         find (\<lambda>r. book_id r = j) (books file)"
  using assms
  by (auto simp: update_book_get_db update_book_contextmanager update_returning_others
      split: sum.splits option.splits)

lemma delete_book_others:
  assumes "getdb = get_db \<or> getdb = contextmanager get_db" and "j \<noteq> i"
  shows "find (\<lambda>r. book_id r = j) (books (snd (delete_book getdb i file))) =
         find (\<lambda>r. book_id r = j) (books file)"
  using assms
  by (auto simp: delete_book_get_db delete_book_contextmanager delete_returning_others
      split: sum.splits option.splits)

text \<open>
  Behind \<open>contextmanager\<close> the frame property holds as the specification words it: get
  returns the record of another id before the request, and returns the same record after
  create, update and delete.
\<close>

lemma other_records_contextmanager:
  assumes "sqlite_integer j"
      and "find (\<lambda>r. book_id r = j) (books file) = Some r"
      and "j \<noteq> i"
  shows "get_book (contextmanager get_db) j file = (Inr r, file)"
    and "fst (get_book (contextmanager get_db) j
               (snd (create_book (contextmanager get_db) book file))) = Inr r"
    and "fst (get_book (contextmanager get_db) j
               (snd (update_book (contextmanager get_db) i book file))) = Inr r"
    and "fst (get_book (contextmanager get_db) j
               (snd (delete_book (contextmanager get_db) i file))) = Inr r"
proof -
  show "get_book (contextmanager get_db) j file = (Inr r, file)"
    using assms(1,2) by (rule get_present_contextmanager)
  have c: "find (\<lambda>r. book_id r = j)
             (books (snd (create_book (contextmanager get_db) book file))) = Some r"
    using assms(2) by (intro create_book_others) simp_all
  have u: "find (\<lambda>r. book_id r = j)
             (books (snd (update_book (contextmanager get_db) i book file))) = Some r"
    using assms(2,3) by (simp add: update_book_others)
  have d: "find (\<lambda>r. book_id r = j)
             (books (snd (delete_book (contextmanager get_db) i file))) = Some r"
    using assms(2,3) by (simp add: delete_book_others)
  show "fst (get_book (contextmanager get_db) j
               (snd (create_book (contextmanager get_db) book file))) = Inr r"
    by (simp add: get_present_contextmanager [OF assms(1) c])
  show "fst (get_book (contextmanager get_db) j
               (snd (update_book (contextmanager get_db) i book file))) = Inr r"
    by (simp add: get_present_contextmanager [OF assms(1) u])
  show "fst (get_book (contextmanager get_db) j
               (snd (delete_book (contextmanager get_db) i file))) = Inr r"
    by (simp add: get_present_contextmanager [OF assms(1) d])
qed

lemma get_emma_contextmanager:
  "get_book (contextmanager get_db) 2 two_books = (Inr emma_row, two_books)"
  by (simp add: get_book_contextmanager select_where_id_def sqlite_integer_def
      two_books_def dune_row_def emma_row_def)

lemma get_emma_after_contextmanager:
  "fst (get_book (contextmanager get_db) 2
         (snd (create_book (contextmanager get_db) ulysses two_books))) = Inr emma_row"
  "fst (get_book (contextmanager get_db) 2
         (snd (update_book (contextmanager get_db) 1 ulysses two_books))) = Inr emma_row"
  "fst (get_book (contextmanager get_db) 2
         (snd (delete_book (contextmanager get_db) 1 two_books))) = Inr emma_row"
proof -
  have j: "sqlite_integer 2"
    by (simp add: sqlite_integer_def)
  have f: "find (\<lambda>r. book_id r = 2) (books two_books) = Some emma_row"
    by (simp add: two_books_def dune_row_def emma_row_def)
  have n: "(2::int) \<noteq> 1"
    by simp
  show "fst (get_book (contextmanager get_db) 2
         (snd (create_book (contextmanager get_db) ulysses two_books))) = Inr emma_row"
    by (rule other_records_contextmanager(2) [OF j f n])
  show "fst (get_book (contextmanager get_db) 2
         (snd (update_book (contextmanager get_db) 1 ulysses two_books))) = Inr emma_row"
    by (rule other_records_contextmanager(3) [OF j f n])
  show "fst (get_book (contextmanager get_db) 2
         (snd (delete_book (contextmanager get_db) 1 two_books))) = Inr emma_row"
    by (rule other_records_contextmanager(4) [OF j f n])
qed

text \<open>
  C10. create(input), update(i, input) and delete(i) leave every record of another id as
  it was: for an id that is in the table before the request and is not the id the request
  works on, get returns the same record before and after.
  In the program as it is written the table is indeed left as it was by the three
  requests, but get(2) returns no record: it raises TypeError before the request and after
  it. Behind \<open>contextmanager\<close> get(2) returns the record of id 2 before and after each of
  the three requests.
\<close>

theorem get_other_record_raises_TypeError:
  "find (\<lambda>r. book_id r = 2) (books two_books) = Some emma_row
   \<and> get_book get_db 2 two_books = (Inl TypeError, two_books)
   \<and> get_book get_db 2 (snd (create_book get_db ulysses two_books)) = (Inl TypeError, two_books)
   \<and> get_book get_db 2 (snd (update_book get_db 1 ulysses two_books)) = (Inl TypeError, two_books)
   \<and> get_book get_db 2 (snd (delete_book get_db 1 two_books)) = (Inl TypeError, two_books)
   \<and> get_book (contextmanager get_db) 2 two_books = (Inr emma_row, two_books)
   \<and> fst (get_book (contextmanager get_db) 2
           (snd (create_book (contextmanager get_db) ulysses two_books))) = Inr emma_row
   \<and> fst (get_book (contextmanager get_db) 2
           (snd (update_book (contextmanager get_db) 1 ulysses two_books))) = Inr emma_row
   \<and> fst (get_book (contextmanager get_db) 2
           (snd (delete_book (contextmanager get_db) 1 two_books))) = Inr emma_row"
  by (simp add: get_book_get_db create_book_get_db update_book_get_db delete_book_get_db
      get_emma_contextmanager get_emma_after_contextmanager)
     (simp add: two_books_def dune_row_def emma_row_def)

end
